theory Spec2Isabelle
  imports Complex_Main "HOL-Library.Word" "HOL-Library.Sublist" "HOL-Library.Multiset"
    "HOL-Library.AList"
begin

section \<open>Values, images and printed lines\<close>

text \<open>
  The property bag of an image is Go's \<open>map[string]any\<close> as the image client decodes it
  from JSON: a value is nil, a boolean, a number, a string, an array or an object. The
  program never looks inside a value; it hands the bag to the validator and prints
  values as they are.

  A Go map is modelled as an association list read through \<open>map_of\<close>. The order of the
  list is the order in which one \<open>range\<close> over the map yields its entries, which Go
  leaves unspecified: two lists with the same entries stand for the same map.
\<close>

datatype jvalue =
    JNull
  | JBool bool
  | JNumber rat
  | JString string
  | JArray "jvalue list"
  | JObject "(string \<times> jvalue) list"

type_synonym object = "(string \<times> jvalue) list"

datatype Time = UnixNano int

record Image =
  ID :: string
  Name :: string
  CreatedAt :: Time
  SizeBytes :: "64 word"
  Properties :: object

text \<open>
  One call of \<open>fmt.Println\<close> is kept as the list of its operands; the standard output of
  the program is the list of these calls. \<open>SizeBytes\<close> is an \<open>int64\<close>: the word is read
  with \<open>sint\<close>.
\<close>

datatype operand =
    Str string
  | Int64 "64 word"
  | Instant Time
  | Any jvalue

type_synonym line = "operand list"

text \<open>\<open>m[k]\<close> on a Go map: the zero value (nil) when the key is absent.\<close>

definition index :: "object \<Rightarrow> string \<Rightarrow> jvalue" where
  "index m k = (case map_of m k of None \<Rightarrow> JNull | Some v \<Rightarrow> v)"

section \<open>The schema\<close>

text \<open>
  The constant \<open>schemav2\<close> of the source is a JSON Schema that uses four keywords:
  \<open>type\<close>, \<open>required\<close>, \<open>properties\<close> and, inside a property, \<open>type\<close> and \<open>enum\<close>. The
  compiled schema keeps \<open>properties\<close> as a Go map from property name to subschema.
\<close>

record PropertySchema =
  prop_type :: "string option"
  prop_enum :: "jvalue list option"
  prop_default :: "jvalue option"

record Schema =
  schema_type :: "string option"
  schema_required :: "string list"
  schema_properties :: "(string \<times> PropertySchema) list"

definition free_string :: PropertySchema where
  "free_string = \<lparr>prop_type = Some ''string'', prop_enum = None, prop_default = None\<rparr>"

definition enum_string :: "string list \<Rightarrow> PropertySchema" where
  "enum_string vs =
     \<lparr>prop_type = Some ''string'', prop_enum = Some (map JString vs), prop_default = None\<rparr>"

definition schemav2 :: Schema where
  "schemav2 =
     \<lparr>schema_type = Some ''object'',
      schema_required =
        [''unikorn:os:kernel'', ''unikorn:os:family'', ''unikorn:os:distro'',
         ''unikorn:os:version'', ''unikorn:virtualization''],
      schema_properties =
        [(''unikorn:os:kernel'', enum_string [''linux'']),
         (''unikorn:os:family'', enum_string [''debian'', ''redhat'']),
         (''unikorn:os:distro'', enum_string [''ubuntu'', ''rocky'']),
         (''unikorn:os:variant'', free_string),
         (''unikorn:os:codename'', free_string),
         (''unikorn:os:version'', free_string),
         (''unikorn:package:kubernetes'', free_string),
         (''unikorn:package:slurmd'', free_string),
         (''unikorn:gpu_vendor'', enum_string [''AMD'', ''NVIDIA'']),
         (''unikorn:gpu_models'', free_string),
         (''unikorn:gpu_driver'', free_string),
         (''unikorn:virtualization'', enum_string [''any'', ''baremetal'', ''virtualized'']),
         (''unikorn:digest'', free_string)]\<rparr>"

section \<open>The validator\<close>

text \<open>
  Modelled from the spec: \<open>schema.Validate\<close> and the result it returns. They belong to
  the module \<open>github.com/kaptinlin/jsonschema\<close>, which \<open>go.mod\<close> requires at v0.2.2; the
  repository holds the call and what \<open>process\<close> reads of the result, not the validator.
  The definitions of this section model it for the keywords the schema above uses.

  \<^item> From the specification: every required key must be present; every recognized key
    that is present must satisfy its constraint, a free-form string or membership in a
    closed enumeration; unrecognized keys are never flagged; missing and invalid
    properties of one evaluation are coalesced into one defect that lists all the
    offending keys, as a schema validator reports one \<open>properties\<close> violation carrying
    the full list of bad keys.
  \<^item> From the source: the result has a flag \<open>Valid\<close> and a map \<open>Errors\<close> from keyword to
    error; an error has a map \<open>Params\<close>; the error under \<open>properties\<close> names the keys in
    its parameter \<open>property\<close> or \<open>properties\<close> (``It may either be pluralized or not'')
    and stands for properties that ``failed validation or do not exist''.
  \<^item> From the validator's keywords: \<open>required\<close> reports the required names that are
    absent under its own keyword, which \<open>process\<close> does not print; \<open>properties\<close> ranges
    over the schema's property map, a Go map, so the order of the names in its error is
    the order of that iteration.

  The code and the message template of an error are not modelled: the program does not
  read them.
\<close>

record EvaluationError =
  Keyword :: string
  Params :: "(string \<times> jvalue) list"

record EvaluationResult =
  Valid :: bool
  Errors :: "(string \<times> EvaluationError) list"

text \<open>
  Modelled from the spec: the JSON type of a value, and the keywords \<open>type\<close> and \<open>enum\<close>.
  A number without a fractional part has type \<open>integer\<close>, which \<open>number\<close> accepts.
\<close>

fun getDataType :: "jvalue \<Rightarrow> string" where
  "getDataType JNull = ''null''"
| "getDataType (JBool b) = ''boolean''"
| "getDataType (JNumber r) = (if snd (quotient_of r) = 1 then ''integer'' else ''number'')"
| "getDataType (JString s) = ''string''"
| "getDataType (JArray vs) = ''array''"
| "getDataType (JObject kvs) = ''object''"

definition evaluateType :: "string option \<Rightarrow> jvalue \<Rightarrow> bool" where
  "evaluateType t instance =
     (case t of
        None \<Rightarrow> True
      | Some schemaType \<Rightarrow>
          getDataType instance = schemaType \<or>
          (schemaType = ''number'' \<and> getDataType instance = ''integer''))"

definition evaluateEnum :: "jvalue list option \<Rightarrow> jvalue \<Rightarrow> bool" where
  "evaluateEnum e instance =
     (case e of None \<Rightarrow> True | Some allowed \<Rightarrow> instance \<in> set allowed)"

text \<open>
  Modelled from the spec: the validity of the result of evaluating a value against one
  property's subschema, ``its value satisfies that key's constraint''.
\<close>

definition IsValid :: "PropertySchema \<Rightarrow> jvalue \<Rightarrow> bool" where
  "IsValid propSchema instance =
     (evaluateType (prop_type propSchema) instance \<and>
      evaluateEnum (prop_enum propSchema) instance)"

definition isRequired :: "Schema \<Rightarrow> string \<Rightarrow> bool" where
  "isRequired schema propName = (propName \<in> set (schema_required schema))"

definition defaultIsSpecified :: "PropertySchema \<Rightarrow> bool" where
  "defaultIsSpecified propSchema = (prop_default propSchema \<noteq> None)"

text \<open>
  Modelled from the spec: the loop of the keyword \<open>properties\<close> over the schema's
  property map. A property that is present is evaluated against its subschema; one that
  is absent, required and without a default is evaluated against nil, so that it counts
  among the properties that ``failed validation or do not exist''.
\<close>

fun invalid_properties ::
  "Schema \<Rightarrow> (string \<times> PropertySchema) list \<Rightarrow> object \<Rightarrow> string list" where
  "invalid_properties schema [] object = []"
| "invalid_properties schema ((propName, propSchema) # rest) object =
     (case map_of object propName of
        Some propValue \<Rightarrow>
          (if IsValid propSchema propValue then [] else [propName])
      | None \<Rightarrow>
          (if isRequired schema propName \<and> \<not> defaultIsSpecified propSchema
           then (if IsValid propSchema JNull then [] else [propName])
           else []))
     @ invalid_properties schema rest object"

text \<open>
  Modelled from the spec: the error of a keyword that collects names. One name goes to
  the parameter \<open>property\<close>, several go to \<open>properties\<close>, each in single quotes, joined by
  a comma and a space (\<open>strings.Join\<close>).
\<close>

definition quoted :: "string \<Rightarrow> string" where
  "quoted s = CHR 0x27 # s @ [CHR 0x27]"

fun Join :: "string list \<Rightarrow> string \<Rightarrow> string" where
  "Join [] sep = []"
| "Join [s] sep = s"
| "Join (s # t # rest) sep = s @ sep @ Join (t # rest) sep"

definition names_error :: "string \<Rightarrow> string list \<Rightarrow> EvaluationError option" where
  "names_error keyword names =
     (case names of
        [] \<Rightarrow> None
      | [n] \<Rightarrow> Some \<lparr>Keyword = keyword, Params = [(''property'', JString (quoted n))]\<rparr>
      | _ \<Rightarrow>
          Some \<lparr>Keyword = keyword,
                Params = [(''properties'', JString (Join (map quoted names) '', ''))]\<rparr>)"

definition evaluateProperties :: "Schema \<Rightarrow> object \<Rightarrow> EvaluationError option" where
  "evaluateProperties schema object =
     names_error ''properties'' (invalid_properties schema (schema_properties schema) object)"

text \<open>
  Modelled from the spec: the keyword \<open>required\<close>, ``confirm every required key is present
  in the bag''.
\<close>

fun missingProps :: "string list \<Rightarrow> object \<Rightarrow> string list" where
  "missingProps [] object = []"
| "missingProps (propName # rest) object =
     (case map_of object propName of
        None \<Rightarrow> propName # missingProps rest object
      | Some v \<Rightarrow> missingProps rest object)"

definition evaluateRequired :: "Schema \<Rightarrow> object \<Rightarrow> EvaluationError option" where
  "evaluateRequired schema object =
     names_error ''required'' (missingProps (schema_required schema) object)"

text \<open>
  Modelled from the spec: \<open>AddError\<close> clears \<open>Valid\<close> and stores the error under its
  keyword; \<open>Validate\<close> evaluates the keywords of the schema on the bag, which is always a
  JSON object, and is valid when none of them reported an error.
\<close>

definition AddError :: "EvaluationError option \<Rightarrow> EvaluationResult \<Rightarrow> EvaluationResult" where
  "AddError err result =
     (case err of
        None \<Rightarrow> result
      | Some e \<Rightarrow>
          \<lparr>Valid = False, Errors = AList.update (Keyword e) e (Errors result)\<rparr>)"

definition evaluateObjectType :: "Schema \<Rightarrow> object \<Rightarrow> EvaluationError option" where
  "evaluateObjectType schema object =
     (if evaluateType (schema_type schema) (JObject object) then None
      else Some \<lparr>Keyword = ''type'', Params = []\<rparr>)"

definition Validate :: "Schema \<Rightarrow> object \<Rightarrow> EvaluationResult" where
  "Validate schema object =
     AddError (evaluateRequired schema object)
       (AddError (evaluateProperties schema object)
          (AddError (evaluateObjectType schema object)
             \<lparr>Valid = True, Errors = []\<rparr>))"

section \<open>The program\<close>

definition header :: "Image \<Rightarrow> line list" where
  "header img =
     [[Str ''---''],
      [Str ''id:'', Str (ID img)],
      [Str ''name:'', Str (Name img)],
      [Str ''createdAt:'', Instant (CreatedAt img)],
      [Str ''sizeGiB:'', Int64 (signed_drop_bit 30 (SizeBytes img))]]"

definition failure_header :: "line list" where
  "failure_header =
     [[Str ''error:''],
      [Str (''  message: '' @ CHR 0x1B # ''[1;31mImage does not match Unikorn Schema V2''
            @ CHR 0x1B # ''[0m'')],
      [Str ''  documentation: See https://github.com/unikorn-cloud/specifications/blob/main/specifications/providers/openstack/flavors_and_images.md''],
      [Str ''  detail:'']]"

text \<open>The inner loop over \<open>[]string{"property", "properties"}\<close>.\<close>

fun params_lines :: "string list \<Rightarrow> (string \<times> jvalue) list \<Rightarrow> line list" where
  "params_lines [] params = []"
| "params_lines (k # ks) params =
     (case map_of params k of
        Some v \<Rightarrow> [[Str ''    properties:'', Any v]]
      | None \<Rightarrow> [])
     @ params_lines ks params"

text \<open>
  The loop over \<open>maps.Keys(result.Errors)\<close>: the key is looked up again in the map, and
  only the case \<open>"properties"\<close> of the switch prints. A key of the map is always found.
\<close>

fun detail_lines :: "string list \<Rightarrow> (string \<times> EvaluationError) list \<Rightarrow> line list" where
  "detail_lines [] errors = []"
| "detail_lines (errorType # rest) errors =
     (case map_of errors errorType of
        None \<Rightarrow> []
      | Some evaluationError \<Rightarrow>
          (if errorType = ''properties''
           then [Str ''  - message: Object properties failed validation or do not exist'']
                # params_lines [''property'', ''properties''] (Params evaluationError)
           else []))
     @ detail_lines rest errors"

definition group_lines :: "object \<Rightarrow> string \<Rightarrow> string list \<Rightarrow> line list" where
  "group_lines properties pre names =
     map (\<lambda>name. [Str (''  '' @ name @ '':''), Any (index properties (pre @ name))]) names"

definition conforming_lines :: "object \<Rightarrow> line list" where
  "conforming_lines properties =
     [[Str ''os:'']]
     @ group_lines properties ''unikorn:os:''
         [''kernel'', ''family'', ''distro'', ''variant'', ''codename'', ''version'']
     @ [[Str ''package:'']]
     @ group_lines properties ''unikorn:package:'' [''kubernetes'', ''slurmd'']
     @ [[Str ''gpu:'']]
     @ group_lines properties ''unikorn:gpu_'' [''vendor'', ''models'', ''driver'']
     @ [[Str ''virtualization:'', Any (index properties ''unikorn:virtualization'')],
        [Str ''digest:'', Any (index properties ''unikorn:digest'')]]"

text \<open>The body of \<open>process\<close> once the validator has answered.\<close>

definition report :: "Image \<Rightarrow> EvaluationResult \<Rightarrow> line list" where
  "report img result =
     header img @
     (if \<not> Valid result
      then failure_header @ detail_lines (map fst (Errors result)) (Errors result)
      else conforming_lines (Properties img))"

definition process :: "Image \<Rightarrow> Schema \<Rightarrow> line list" where
  "process img schema = report img (Validate schema (Properties img))"

text \<open>
  \<open>main\<close> from the point where the image records have been retrieved: the eligibility
  filter (\<open>slices.DeleteFunc\<close> over \<open>slices.ContainsFunc\<close> and \<open>strings.HasPrefix\<close>) and the
  loop that processes what is left.
\<close>

definition HasPrefix :: "string \<Rightarrow> string \<Rightarrow> bool" where
  "HasPrefix s pre = (length pre \<le> length s \<and> take (length pre) s = pre)"

fun ContainsFunc :: "'a list \<Rightarrow> ('a \<Rightarrow> bool) \<Rightarrow> bool" where
  "ContainsFunc [] f = False"
| "ContainsFunc (x # xs) f = (if f x then True else ContainsFunc xs f)"

fun DeleteFunc :: "'a list \<Rightarrow> ('a \<Rightarrow> bool) \<Rightarrow> 'a list" where
  "DeleteFunc [] del = []"
| "DeleteFunc (x # xs) del = (if del x then DeleteFunc xs del else x # DeleteFunc xs del)"

definition Keys :: "('k \<times> 'v) list \<Rightarrow> 'k list" where
  "Keys m = map fst m"

definition ineligible :: "Image \<Rightarrow> bool" where
  "ineligible img =
     (\<not> ContainsFunc (Keys (Properties img)) (\<lambda>key. HasPrefix key ''unikorn:''))"

fun process_all :: "Image list \<Rightarrow> Schema \<Rightarrow> line list" where
  "process_all [] schema = []"
| "process_all (img # rest) schema = process img schema @ process_all rest schema"

definition main_images :: "Image list \<Rightarrow> Schema \<Rightarrow> line list" where
  "main_images result schema = process_all (DeleteFunc result ineligible) schema"

section \<open>The schema in the words of the specification\<close>

text \<open>
  The specification names five required keys, thirteen recognized keys in four groups,
  and a closed enumeration for five of them; every other recognized key is a free-form
  string. These definitions follow its words and are compared with the validator below.
\<close>

definition spec_required :: "string list" where
  "spec_required =
     [''unikorn:os:kernel'', ''unikorn:os:family'', ''unikorn:os:distro'',
      ''unikorn:os:version'', ''unikorn:virtualization'']"

definition spec_recognized :: "string list" where
  "spec_recognized =
     [''unikorn:os:kernel'', ''unikorn:os:family'', ''unikorn:os:distro'',
      ''unikorn:os:variant'', ''unikorn:os:codename'', ''unikorn:os:version'',
      ''unikorn:package:kubernetes'', ''unikorn:package:slurmd'',
      ''unikorn:gpu_vendor'', ''unikorn:gpu_models'', ''unikorn:gpu_driver'',
      ''unikorn:virtualization'', ''unikorn:digest'']"

definition spec_enumerations :: "(string \<times> string list) list" where
  "spec_enumerations =
     [(''unikorn:os:kernel'', [''linux'']),
      (''unikorn:os:family'', [''debian'', ''redhat'']),
      (''unikorn:os:distro'', [''ubuntu'', ''rocky'']),
      (''unikorn:gpu_vendor'', [''AMD'', ''NVIDIA'']),
      (''unikorn:virtualization'', [''any'', ''baremetal'', ''virtualized''])]"

definition spec_satisfies :: "string \<Rightarrow> jvalue \<Rightarrow> bool" where
  "spec_satisfies k v =
     (case v of
        JString s \<Rightarrow>
          (case map_of spec_enumerations k of
             None \<Rightarrow> True
           | Some allowed \<Rightarrow> s \<in> set allowed)
      | _ \<Rightarrow> False)"

definition spec_missing :: "object \<Rightarrow> string list" where
  "spec_missing bag = filter (\<lambda>k. map_of bag k = None) spec_required"

definition spec_invalid :: "object \<Rightarrow> string list" where
  "spec_invalid bag =
     filter (\<lambda>k. case map_of bag k of None \<Rightarrow> False | Some v \<Rightarrow> \<not> spec_satisfies k v)
       spec_recognized"

definition spec_conforming :: "object \<Rightarrow> bool" where
  "spec_conforming bag = (spec_missing bag = [] \<and> spec_invalid bag = [])"

text \<open>
  \<open>iteration_of s t\<close>: \<open>s\<close> is the schema \<open>t\<close> with its property map enumerated in some
  order. \<open>fails\<close> is the test the \<open>properties\<close> loop applies to one entry of that map,
  \<open>spec_fails\<close> its wording over the specification's tables, and \<open>entry\<close> the entry
  \<open>AddError\<close> stores for an error.
\<close>

definition iteration_of :: "Schema \<Rightarrow> Schema \<Rightarrow> bool" where
  "iteration_of s t =
     (schema_type s = schema_type t \<and> schema_required s = schema_required t \<and>
      mset (schema_properties s) = mset (schema_properties t))"

definition fails :: "Schema \<Rightarrow> object \<Rightarrow> string \<Rightarrow> PropertySchema \<Rightarrow> bool" where
  "fails schema obj k ps =
     (case map_of obj k of
        Some v \<Rightarrow> \<not> IsValid ps v
      | None \<Rightarrow> isRequired schema k \<and> \<not> defaultIsSpecified ps \<and> \<not> IsValid ps JNull)"

definition spec_fails :: "object \<Rightarrow> string \<Rightarrow> bool" where
  "spec_fails bag k =
     (case map_of bag k of None \<Rightarrow> k \<in> set spec_required | Some v \<Rightarrow> \<not> spec_satisfies k v)"

definition entry :: "EvaluationError option \<Rightarrow> (string \<times> EvaluationError) list" where
  "entry err = (case err of None \<Rightarrow> [] | Some e \<Rightarrow> [(Keyword e, e)])"

section \<open>Example bags and images\<close>

definition example_image :: "object \<Rightarrow> Image" where
  "example_image bag =
     \<lparr>ID = ''0f5d'', Name = ''example'', CreatedAt = UnixNano 0, SizeBytes = 3221225472,
      Properties = bag\<rparr>"

definition bag_kernel_only :: object where
  "bag_kernel_only = [(''unikorn:os:kernel'', JString ''linux'')]"

definition bag_windows_only :: object where
  "bag_windows_only = [(''unikorn:os:kernel'', JString ''windows'')]"

definition bag_minimal :: object where
  "bag_minimal =
     [(''unikorn:os:kernel'', JString ''linux''),
      (''unikorn:os:family'', JString ''debian''),
      (''unikorn:os:distro'', JString ''ubuntu''),
      (''unikorn:os:version'', JString ''22.04''),
      (''unikorn:virtualization'', JString ''any'')]"

definition bag_windows :: object where
  "bag_windows =
     [(''unikorn:os:kernel'', JString ''windows''),
      (''unikorn:os:family'', JString ''debian''),
      (''unikorn:os:distro'', JString ''ubuntu''),
      (''unikorn:os:version'', JString ''22.04''),
      (''unikorn:virtualization'', JString ''any'')]"

definition bag_empty_virtualization :: object where
  "bag_empty_virtualization =
     [(''unikorn:os:kernel'', JString ''linux''),
      (''unikorn:os:family'', JString ''debian''),
      (''unikorn:os:distro'', JString ''ubuntu''),
      (''unikorn:os:version'', JString ''22.04''),
      (''unikorn:virtualization'', JString [])]"

definition bag_missing_virtualization :: object where
  "bag_missing_virtualization =
     [(''unikorn:os:kernel'', JString ''linux''),
      (''unikorn:os:family'', JString ''debian''),
      (''unikorn:os:distro'', JString ''ubuntu''),
      (''unikorn:os:version'', JString ''22.04'')]"

definition bag_foreign :: object where
  "bag_foreign = [(''os_distro'', JString ''ubuntu''), (''hw_disk_bus'', JString ''virtio'')]"

definition required_error :: EvaluationError where
  "required_error =
     \<lparr>Keyword = ''required'', Params = [(''property'', JString ''unikorn:os:family'')]\<rparr>"

definition properties_error :: EvaluationError where
  "properties_error =
     \<lparr>Keyword = ''properties'', Params = [(''properties'', JString ''a, b'')]\<rparr>"

definition schemav2_reversed :: Schema where
  "schemav2_reversed = schemav2\<lparr>schema_properties := rev (schema_properties schemav2)\<rparr>"

section \<open>Facts about the validator\<close>

lemma invalid_properties_Cons:
  "invalid_properties schema ((k, ps) # rest) obj =
     (if fails schema obj k ps then [k] else []) @ invalid_properties schema rest obj"
  by (simp add: fails_def split: option.splits)

lemma invalid_properties_filter:
  "invalid_properties schema props obj =
     map fst (filter (\<lambda>(k, ps). fails schema obj k ps) props)"
proof (induction props)
  case Nil
  show ?case by simp
next
  case (Cons p props)
  obtain k ps where p: "p = (k, ps)" by (cases p)
  show ?case
    unfolding p invalid_properties_Cons Cons.IH by simp
qed

lemma missingProps_filter:
  "missingProps req obj = filter (\<lambda>k. map_of obj k = None) req"
  by (induction req) (auto split: option.splits)

lemma IsValid_free_string: "IsValid free_string v \<longleftrightarrow> (\<exists>s. v = JString s)"
  by (cases v) (auto simp: IsValid_def free_string_def evaluateType_def evaluateEnum_def)

lemma IsValid_enum_string:
  "IsValid (enum_string vs) v \<longleftrightarrow> (\<exists>s. v = JString s \<and> s \<in> set vs)"
  by (cases v)
     (auto simp: IsValid_def enum_string_def evaluateType_def evaluateEnum_def)

lemma satisfies_free:
  "map_of spec_enumerations k = None \<Longrightarrow> spec_satisfies k v \<longleftrightarrow> (\<exists>s. v = JString s)"
  by (cases v) (simp_all add: spec_satisfies_def)

lemma satisfies_enum:
  "map_of spec_enumerations k = Some vs \<Longrightarrow>
   spec_satisfies k v \<longleftrightarrow> (\<exists>s. v = JString s \<and> s \<in> set vs)"
  by (cases v) (simp_all add: spec_satisfies_def)

lemma schemav2_constraints:
  "list_all
     (\<lambda>(k, ps). ps = (case map_of spec_enumerations k of
                        None \<Rightarrow> free_string
                      | Some vs \<Rightarrow> enum_string vs))
     (schema_properties schemav2)"
  by (simp add: schemav2_def spec_enumerations_def)

lemma schemav2_satisfies:
  assumes "(k, ps) \<in> set (schema_properties schemav2)"
  shows "IsValid ps v \<longleftrightarrow> spec_satisfies k v"
proof -
  from assms schemav2_constraints
  have ps: "ps = (case map_of spec_enumerations k of
                    None \<Rightarrow> free_string | Some vs \<Rightarrow> enum_string vs)"
    unfolding list_all_iff by blast
  show ?thesis
  proof (cases "map_of spec_enumerations k")
    case None
    with ps show ?thesis by (simp add: IsValid_free_string satisfies_free)
  next
    case (Some vs)
    with ps show ?thesis by (simp add: IsValid_enum_string satisfies_enum)
  qed
qed

lemma schemav2_no_default:
  assumes "(k, ps) \<in> set (schema_properties schemav2)"
  shows "\<not> defaultIsSpecified ps"
proof -
  from assms schemav2_constraints
  have "ps = (case map_of spec_enumerations k of
                None \<Rightarrow> free_string | Some vs \<Rightarrow> enum_string vs)"
    unfolding list_all_iff by blast
  then show ?thesis
    by (simp add: defaultIsSpecified_def free_string_def enum_string_def split: option.splits)
qed

lemma schemav2_keys: "map fst (schema_properties schemav2) = spec_recognized"
  by (simp add: schemav2_def spec_recognized_def)

lemma schemav2_required: "schema_required schemav2 = spec_required"
  by (simp add: schemav2_def spec_required_def)

lemma schemav2_type: "schema_type schemav2 = Some ''object''"
  by (simp add: schemav2_def)

lemma spec_required_recognized: "set spec_required \<subseteq> set spec_recognized"
  by (simp add: spec_required_def spec_recognized_def)

lemma spec_recognized_distinct: "distinct spec_recognized"
  by (simp add: spec_recognized_def)

lemma iteration_set:
  "iteration_of s t \<Longrightarrow> set (schema_properties s) = set (schema_properties t)"
  by (auto simp: iteration_of_def dest: mset_eq_setD)

lemma iteration_keys:
  assumes "iteration_of s schemav2"
  shows "set (map fst (schema_properties s)) = set spec_recognized"
    and "distinct (map fst (schema_properties s))"
proof -
  from assms have "mset (schema_properties s) = mset (schema_properties schemav2)"
    by (simp add: iteration_of_def)
  then have "image_mset fst (mset (schema_properties s)) =
             image_mset fst (mset (schema_properties schemav2))"
    by simp
  then have "mset (map fst (schema_properties s)) = mset (map fst (schema_properties schemav2))"
    by simp
  then have m: "mset (map fst (schema_properties s)) = mset spec_recognized"
    by (simp add: schemav2_keys)
  from m show "set (map fst (schema_properties s)) = set spec_recognized"
    by (rule mset_eq_setD)
  from m spec_recognized_distinct show "distinct (map fst (schema_properties s))"
    by (metis mset_eq_imp_distinct_iff)
qed

lemma fails_v2:
  assumes "iteration_of sch schemav2" and "(k, ps) \<in> set (schema_properties sch)"
  shows "fails sch bag k ps \<longleftrightarrow> spec_fails bag k"
proof -
  from assms have mem: "(k, ps) \<in> set (schema_properties schemav2)"
    by (simp add: iteration_set)
  from assms(1) have req: "isRequired sch k \<longleftrightarrow> k \<in> set spec_required"
    by (simp add: isRequired_def iteration_of_def schemav2_required)
  have null: "\<not> spec_satisfies k JNull"
    by (simp add: spec_satisfies_def)
  show ?thesis
    by (simp add: fails_def spec_fails_def req null schemav2_no_default [OF mem]
          schemav2_satisfies [OF mem] split: option.splits)
qed

lemma invalid_v2_set:
  assumes "iteration_of sch schemav2"
  shows "set (invalid_properties sch (schema_properties sch) bag) =
         {k \<in> set spec_recognized. spec_fails bag k}"
proof -
  have "set (invalid_properties sch (schema_properties sch) bag) =
        {k. \<exists>ps. (k, ps) \<in> set (schema_properties sch) \<and> fails sch bag k ps}"
    by (force simp: invalid_properties_filter)
  also have "\<dots> = {k. \<exists>ps. (k, ps) \<in> set (schema_properties sch) \<and> spec_fails bag k}"
    using fails_v2 [OF assms] by blast
  also have "\<dots> = {k \<in> set (map fst (schema_properties sch)). spec_fails bag k}"
    by force
  finally show ?thesis
    by (simp only: iteration_keys(1) [OF assms])
qed

lemma invalid_v2_distinct:
  assumes "iteration_of sch schemav2"
  shows "distinct (invalid_properties sch (schema_properties sch) bag)"
  unfolding invalid_properties_filter
  using iteration_keys(2) [OF assms] by (rule distinct_map_filter)

lemma spec_fails_split:
  "{k \<in> set spec_recognized. spec_fails bag k} = set (spec_missing bag) \<union> set (spec_invalid bag)"
  using spec_required_recognized
  by (auto simp: spec_fails_def spec_missing_def spec_invalid_def split: option.splits)

lemma missing_v2:
  "iteration_of sch schemav2 \<Longrightarrow> missingProps (schema_required sch) bag = spec_missing bag"
  by (simp add: missingProps_filter spec_missing_def iteration_of_def schemav2_required)

lemma names_error_None: "names_error kw ns = None \<longleftrightarrow> ns = []"
  by (simp add: names_error_def split: list.splits)

lemma names_error_Keyword: "names_error kw ns = Some e \<Longrightarrow> Keyword e = kw"
  by (auto simp: names_error_def split: list.splits)

lemma names_error_params:
  "names_error kw ns = Some e \<Longrightarrow>
   params_lines [''property'', ''properties''] (Params e) =
     [[Str ''    properties:'', Any (JString (Join (map quoted ns) '', ''))]]"
  by (auto simp: names_error_def split: list.splits)

lemma entry_names_error:
  "entry (names_error kw ns) =
     (case names_error kw ns of None \<Rightarrow> [] | Some e \<Rightarrow> [(kw, e)])"
  by (auto simp: entry_def dest: names_error_Keyword split: option.splits)

lemma Validate_eq:
  assumes "evaluateType (schema_type sch) (JObject bag)"
  shows "Validate sch bag =
     \<lparr>Valid = (invalid_properties sch (schema_properties sch) bag = [] \<and>
               missingProps (schema_required sch) bag = []),
      Errors = entry (evaluateProperties sch bag) @ entry (evaluateRequired sch bag)\<rparr>"
proof -
  let ?inv = "invalid_properties sch (schema_properties sch) bag"
  let ?miss = "missingProps (schema_required sch) bag"
  have t: "evaluateObjectType sch bag = None"
    using assms by (simp add: evaluateObjectType_def)
  show ?thesis
  proof (cases "names_error ''properties'' ?inv")
    case pN: None
    then have i: "?inv = []" by (simp add: names_error_None)
    show ?thesis
    proof (cases "names_error ''required'' ?miss")
      case None
      then have "?miss = []" by (simp add: names_error_None)
      with i pN None show ?thesis
        by (simp add: Validate_def t AddError_def entry_def evaluateProperties_def
              evaluateRequired_def)
    next
      case (Some r)
      then have "?miss \<noteq> []" by (metis names_error_None option.distinct(1))
      with names_error_Keyword [OF Some] pN Some show ?thesis
        by (simp add: Validate_def t AddError_def entry_def evaluateProperties_def
              evaluateRequired_def)
    qed
  next
    case pS: (Some e)
    then have i: "?inv \<noteq> []" by (metis names_error_None option.distinct(1))
    note ke = names_error_Keyword [OF pS]
    show ?thesis
    proof (cases "names_error ''required'' ?miss")
      case None
      with i pS ke show ?thesis
        by (simp add: Validate_def t AddError_def entry_def evaluateProperties_def
              evaluateRequired_def)
    next
      case (Some r)
      with names_error_Keyword [OF Some] i pS ke show ?thesis
        by (simp add: Validate_def t AddError_def entry_def evaluateProperties_def
              evaluateRequired_def)
    qed
  qed
qed


section \<open>Facts about the report\<close>

lemma detail_lines_filter:
  "detail_lines ks errs = detail_lines (filter (\<lambda>k. k = ''properties'') ks) errs"
  by (induction ks) (simp_all split: option.splits)

lemma detail_lines_none:
  "''properties'' \<notin> set ks \<Longrightarrow> detail_lines ks errs = []"
  by (induction ks) (auto split: option.splits)

lemma filter_eq_single:
  "distinct ks \<Longrightarrow> k \<in> set ks \<Longrightarrow> filter (\<lambda>x. x = k) ks = [k]"
  by (induction ks) (auto simp: filter_empty_conv)

lemma params_lines_both:
  "params_lines [''property'', ''properties''] ps =
     (case map_of ps ''property'' of Some v \<Rightarrow> [[Str ''    properties:'', Any v]] | None \<Rightarrow> [])
     @ (case map_of ps ''properties'' of Some v \<Rightarrow> [[Str ''    properties:'', Any v]] | None \<Rightarrow> [])"
  by simp

lemma report_invalid:
  "\<not> Valid result \<Longrightarrow>
   report img result =
     header img @ failure_header @ detail_lines (map fst (Errors result)) (Errors result)"
  by (simp add: report_def)

lemma detail_lines_single:
  "detail_lines [''properties''] errs =
     (case map_of errs ''properties'' of
        None \<Rightarrow> []
      | Some e \<Rightarrow>
          [Str ''  - message: Object properties failed validation or do not exist'']
          # params_lines [''property'', ''properties''] (Params e))"
  by (simp split: option.splits)

subsection \<open>The v2 schema under any order of iteration\<close>

lemma v2_type_ok:
  "iteration_of sch schemav2 \<Longrightarrow> evaluateType (schema_type sch) (JObject bag)"
  by (simp add: iteration_of_def schemav2_type evaluateType_def)

lemma invalid_v2_union:
  "iteration_of sch schemav2 \<Longrightarrow>
   set (invalid_properties sch (schema_properties sch) bag) =
     set (spec_missing bag) \<union> set (spec_invalid bag)"
  by (simp add: invalid_v2_set spec_fails_split)

lemma invalid_v2_Nil:
  assumes "iteration_of sch schemav2"
  shows "invalid_properties sch (schema_properties sch) bag = [] \<longleftrightarrow> spec_conforming bag"
proof -
  have "invalid_properties sch (schema_properties sch) bag = [] \<longleftrightarrow>
        set (invalid_properties sch (schema_properties sch) bag) = {}"
    by simp
  also have "\<dots> \<longleftrightarrow> spec_conforming bag"
    by (simp add: invalid_v2_union [OF assms] spec_conforming_def)
  finally show ?thesis .
qed

lemma Valid_v2:
  assumes "iteration_of sch schemav2"
  shows "Valid (Validate sch bag) \<longleftrightarrow> spec_conforming bag"
  using invalid_v2_Nil [OF assms, of bag]
  by (auto simp: Validate_eq [OF v2_type_ok [OF assms]] missing_v2 [OF assms]
        spec_conforming_def)

lemma Errors_v2:
  assumes "iteration_of sch schemav2"
  shows "Errors (Validate sch bag) =
     (case names_error ''properties'' (invalid_properties sch (schema_properties sch) bag) of
        None \<Rightarrow> [] | Some e \<Rightarrow> [(''properties'', e)]) @
     (case names_error ''required'' (spec_missing bag) of
        None \<Rightarrow> [] | Some e \<Rightarrow> [(''required'', e)])"
  by (simp add: Validate_eq [OF v2_type_ok [OF assms]] entry_names_error
        evaluateProperties_def evaluateRequired_def missing_v2 [OF assms])

lemma spec_conforming_iff:
  "spec_conforming bag \<longleftrightarrow>
     (\<forall>k\<in>set spec_required. map_of bag k \<noteq> None) \<and>
     (\<forall>k\<in>set spec_recognized. \<forall>v. map_of bag k = Some v \<longrightarrow> spec_satisfies k v)"
  by (auto simp: spec_conforming_def spec_missing_def spec_invalid_def filter_empty_conv
        split: option.splits)

lemma process_v2_valid:
  assumes "iteration_of sch schemav2" and "spec_conforming (Properties img)"
  shows "process img sch = header img @ conforming_lines (Properties img)"
  using assms by (simp add: process_def report_def Valid_v2)

lemma process_v2_invalid:
  assumes it: "iteration_of sch schemav2" and nc: "\<not> spec_conforming (Properties img)"
  shows "process img sch =
     header img @ failure_header @
     [[Str ''  - message: Object properties failed validation or do not exist''],
      [Str ''    properties:'',
       Any (JString (Join (map quoted
         (invalid_properties sch (schema_properties sch) (Properties img))) '', ''))]]"
proof -
  let ?inv = "invalid_properties sch (schema_properties sch) (Properties img)"
  from nc have "?inv \<noteq> []"
    by (simp add: invalid_v2_Nil [OF it])
  then obtain e where e: "names_error ''properties'' ?inv = Some e"
    by (metis names_error_None not_Some_eq)
  have nv: "\<not> Valid (Validate sch (Properties img))"
    using nc by (simp add: Valid_v2 [OF it])
  have dl: "detail_lines (map fst (Errors (Validate sch (Properties img))))
              (Errors (Validate sch (Properties img))) =
            [Str ''  - message: Object properties failed validation or do not exist'']
            # params_lines [''property'', ''properties''] (Params e)"
    unfolding Errors_v2 [OF it] e
    by (simp del: params_lines.simps split: option.splits)
  show ?thesis
    unfolding process_def report_invalid [OF nv] dl names_error_params [OF e] by simp
qed

lemma iteration_refl: "iteration_of s s"
  by (simp add: iteration_of_def)

lemma enumerated_recognized:
  "map_of spec_enumerations k = Some allowed \<Longrightarrow> k \<in> set spec_recognized"
  by (simp add: spec_enumerations_def spec_recognized_def split: if_splits)

lemma enumerated_nonempty_strings:
  "map_of spec_enumerations k = Some allowed \<Longrightarrow> [] \<notin> set allowed"
  by (auto simp: spec_enumerations_def split: if_splits)

lemma spec_invalid_member:
  "k \<in> set (spec_invalid bag) \<longleftrightarrow>
     k \<in> set spec_recognized \<and> (\<exists>v. map_of bag k = Some v \<and> \<not> spec_satisfies k v)"
  by (auto simp: spec_invalid_def split: option.splits)

lemma not_conforming_if_invalid:
  "k \<in> set (spec_invalid bag) \<Longrightarrow> \<not> spec_conforming bag"
  by (auto simp: spec_conforming_def)

lemma not_conforming_if_missing:
  "spec_missing bag \<noteq> [] \<Longrightarrow> \<not> spec_conforming bag"
  by (auto simp: spec_conforming_def)

subsection \<open>Keys the schema does not name\<close>

lemma Validate_cong:
  assumes "\<And>k. k \<in> set (map fst (schema_properties sch)) \<union> set (schema_required sch) \<Longrightarrow>
             map_of bag' k = map_of bag k"
  shows "Validate sch bag' = Validate sch bag"
proof -
  have f: "fails sch bag' k ps = fails sch bag k ps"
    if "(k, ps) \<in> set (schema_properties sch)" for k ps
  proof -
    from that have "k \<in> set (map fst (schema_properties sch))" by force
    then show ?thesis by (simp add: fails_def assms)
  qed
  have i: "invalid_properties sch (schema_properties sch) bag' =
           invalid_properties sch (schema_properties sch) bag"
    unfolding invalid_properties_filter
    by (rule arg_cong [where f = "map fst"], rule filter_cong) (auto simp: f)
  have m: "missingProps (schema_required sch) bag' = missingProps (schema_required sch) bag"
    unfolding missingProps_filter
    by (rule filter_cong) (auto simp: assms)
  have t: "evaluateObjectType sch bag' = evaluateObjectType sch bag"
    by (simp add: evaluateObjectType_def evaluateType_def split: option.splits)
  show ?thesis
    by (simp add: Validate_def evaluateProperties_def evaluateRequired_def i m t)
qed

lemma index_Cons_other: "k' \<noteq> k \<Longrightarrow> index ((k, v) # bag) k' = index bag k'"
  by (simp add: index_def)

lemma conforming_lines_unrecognized:
  assumes "k \<notin> set spec_recognized"
  shows "conforming_lines ((k, v) # bag) = conforming_lines bag"
proof -
  have "index ((k, v) # bag) k' = index bag k'" if "k' \<in> set spec_recognized" for k'
    using that assms by (auto intro: index_Cons_other)
  then show ?thesis
    by (simp add: conforming_lines_def group_lines_def spec_recognized_def)
qed

subsection \<open>The conforming view and the examples\<close>

lemma bag_minimal_conforming: "spec_conforming bag_minimal"
  by (simp add: spec_conforming_def spec_missing_def spec_invalid_def spec_required_def
        spec_recognized_def bag_minimal_def spec_satisfies_def spec_enumerations_def)

lemma conforming_lines_explicit:
  "conforming_lines bag =
     [[Str ''os:''],
      [Str ''  kernel:'', Any (index bag ''unikorn:os:kernel'')],
      [Str ''  family:'', Any (index bag ''unikorn:os:family'')],
      [Str ''  distro:'', Any (index bag ''unikorn:os:distro'')],
      [Str ''  variant:'', Any (index bag ''unikorn:os:variant'')],
      [Str ''  codename:'', Any (index bag ''unikorn:os:codename'')],
      [Str ''  version:'', Any (index bag ''unikorn:os:version'')],
      [Str ''package:''],
      [Str ''  kubernetes:'', Any (index bag ''unikorn:package:kubernetes'')],
      [Str ''  slurmd:'', Any (index bag ''unikorn:package:slurmd'')],
      [Str ''gpu:''],
      [Str ''  vendor:'', Any (index bag ''unikorn:gpu_vendor'')],
      [Str ''  models:'', Any (index bag ''unikorn:gpu_models'')],
      [Str ''  driver:'', Any (index bag ''unikorn:gpu_driver'')],
      [Str ''virtualization:'', Any (index bag ''unikorn:virtualization'')],
      [Str ''digest:'', Any (index bag ''unikorn:digest'')]]"
  by (simp add: conforming_lines_def group_lines_def)

lemma index_conforming:
  assumes "spec_conforming bag" and "k \<in> set spec_recognized"
  shows "(case map_of bag k of
            Some v \<Rightarrow> index bag k = v \<and> v \<noteq> JNull
          | None \<Rightarrow> index bag k = JNull)"
proof (cases "map_of bag k")
  case None
  then show ?thesis by (simp add: index_def)
next
  case (Some v)
  with assms have "spec_satisfies k v"
    by (simp add: spec_conforming_iff)
  then have "v \<noteq> JNull"
    by (auto simp: spec_satisfies_def)
  with Some show ?thesis by (simp add: index_def)
qed

lemma map_of_Errors_v2:
  assumes "iteration_of sch schemav2"
  shows "map_of (Errors (Validate sch bag)) ''properties'' =
           names_error ''properties'' (invalid_properties sch (schema_properties sch) bag)"
    and "map_of (Errors (Validate sch bag)) ''required'' =
           names_error ''required'' (missingProps (schema_required sch) bag)"
  by (simp_all add: Errors_v2 [OF assms] missing_v2 [OF assms] split: option.splits)

lemma Validate_empty_virtualization:
  "Validate schemav2 bag_empty_virtualization =
     \<lparr>Valid = False,
      Errors = [(''properties'',
                 \<lparr>Keyword = ''properties'',
                  Params = [(''property'', JString (quoted ''unikorn:virtualization''))]\<rparr>)]\<rparr>"
  by (simp add: Validate_def schemav2_def bag_empty_virtualization_def AddError_def
        evaluateObjectType_def evaluateProperties_def evaluateRequired_def names_error_def
        IsValid_def evaluateType_def evaluateEnum_def enum_string_def free_string_def
        isRequired_def defaultIsSpecified_def)

lemma invalid_properties_kernel_only:
  "invalid_properties schemav2 (schema_properties schemav2) bag_kernel_only =
     [''unikorn:os:family'', ''unikorn:os:distro'', ''unikorn:os:version'',
      ''unikorn:virtualization'']"
  by (simp add: schemav2_def bag_kernel_only_def IsValid_def evaluateType_def evaluateEnum_def
        enum_string_def free_string_def isRequired_def defaultIsSpecified_def)

lemma invalid_properties_windows_only:
  "invalid_properties schemav2 (schema_properties schemav2) bag_windows_only =
     [''unikorn:os:kernel'', ''unikorn:os:family'', ''unikorn:os:distro'',
      ''unikorn:os:version'', ''unikorn:virtualization'']"
  by (simp add: schemav2_def bag_windows_only_def IsValid_def evaluateType_def evaluateEnum_def
        enum_string_def free_string_def isRequired_def defaultIsSpecified_def)

lemma spec_missing_kernel_only:
  "spec_missing bag_kernel_only =
     [''unikorn:os:family'', ''unikorn:os:distro'', ''unikorn:os:version'',
      ''unikorn:virtualization'']"
  by (simp add: spec_missing_def spec_required_def bag_kernel_only_def)

lemma spec_missing_windows_only:
  "spec_missing bag_windows_only =
     [''unikorn:os:family'', ''unikorn:os:distro'', ''unikorn:os:version'',
      ''unikorn:virtualization'']"
  by (simp add: spec_missing_def spec_required_def bag_windows_only_def)

lemma Properties_example: "Properties (example_image bag) = bag"
  by (simp add: example_image_def)

subsection \<open>The eligibility filter and the loop\<close>

lemma HasPrefix_prefix: "HasPrefix s pre \<longleftrightarrow> prefix pre s"
proof
  assume "HasPrefix s pre"
  then have "s = pre @ drop (length pre) s"
    by (metis HasPrefix_def append_take_drop_id)
  then show "prefix pre s"
    by (metis prefixI)
next
  assume "prefix pre s"
  then show "HasPrefix s pre"
    by (auto simp: HasPrefix_def prefix_def)
qed

lemma ContainsFunc_iff: "ContainsFunc xs f \<longleftrightarrow> (\<exists>x\<in>set xs. f x)"
  by (induction xs) auto

lemma DeleteFunc_filter: "DeleteFunc xs del = filter (\<lambda>x. \<not> del x) xs"
  by (induction xs) auto

lemma process_all_concat: "process_all imgs sch = concat (map (\<lambda>i. process i sch) imgs)"
  by (induction imgs) auto

lemma process_all_append:
  "process_all (xs @ ys) sch = process_all xs sch @ process_all ys sch"
  by (simp add: process_all_concat)

lemma ineligible_iff:
  "ineligible img \<longleftrightarrow> \<not> (\<exists>k\<in>set (map fst (Properties img)). prefix ''unikorn:'' k)"
  by (simp add: ineligible_def ContainsFunc_iff HasPrefix_prefix Keys_def)

lemma process_nonempty: "process img sch \<noteq> []"
  by (simp add: process_def report_def header_def)

lemma ineligible_foreign: "ineligible (example_image bag_foreign)"
  by (simp add: ineligible_def example_image_def bag_foreign_def Keys_def HasPrefix_def)

lemma eligible_kernel_only: "\<not> ineligible (example_image bag_kernel_only)"
  by (simp add: ineligible_def example_image_def bag_kernel_only_def Keys_def HasPrefix_def)

lemma eligible_minimal: "\<not> ineligible (example_image bag_minimal)"
  by (simp add: ineligible_def example_image_def bag_minimal_def Keys_def HasPrefix_def)

subsection \<open>The order of the error map\<close>

lemma detail_lines_distinct:
  assumes "distinct (map fst errs)"
  shows "detail_lines (map fst errs) errs = detail_lines [''properties''] errs"
proof (cases "''properties'' \<in> set (map fst errs)")
  case True
  with assms have "filter (\<lambda>k. k = ''properties'') (map fst errs) = [''properties'']"
    by (rule filter_eq_single)
  with detail_lines_filter [of "map fst errs" errs] show ?thesis by simp
next
  case False
  then have "map_of errs ''properties'' = None"
    by (simp add: map_of_eq_None_iff)
  with False show ?thesis
    by (simp add: detail_lines_none)
qed

lemma Errors_v2_distinct:
  assumes "iteration_of sch schemav2"
  shows "distinct (map fst (Errors (Validate sch bag)))"
  by (simp add: Errors_v2 [OF assms] split: option.splits)

lemma report_Errors_permuted:
  assumes d: "distinct (map fst (Errors result))" and m: "mset errs = mset (Errors result)"
  shows "report img (result\<lparr>Errors := errs\<rparr>) = report img result"
proof -
  from m have "mset (map fst errs) = mset (map fst (Errors result))"
    by (metis mset_map)
  with d have d': "distinct (map fst errs)"
    by (metis mset_eq_imp_distinct_iff)
  from m have "set errs = set (Errors result)"
    by (rule mset_eq_setD)
  with d d' have "map_of errs = map_of (Errors result)"
    by (simp add: map_of_inject_set)
  then have "detail_lines [''properties''] errs = detail_lines [''properties''] (Errors result)"
    by (simp add: detail_lines_single)
  then show ?thesis
    by (simp add: report_def detail_lines_distinct [OF d] detail_lines_distinct [OF d'])
qed

lemma iteration_reversed: "iteration_of schemav2_reversed schemav2"
  by (simp add: iteration_of_def schemav2_reversed_def)

lemma invalid_properties_reversed_kernel_only:
  "invalid_properties schemav2_reversed (schema_properties schemav2_reversed) bag_kernel_only =
     [''unikorn:virtualization'', ''unikorn:os:version'', ''unikorn:os:distro'',
      ''unikorn:os:family'']"
  by (simp add: schemav2_reversed_def schemav2_def bag_kernel_only_def IsValid_def
        evaluateType_def evaluateEnum_def enum_string_def free_string_def isRequired_def
        defaultIsSpecified_def)

lemma kernel_only_not_conforming:
  "\<not> spec_conforming (Properties (example_image bag_kernel_only))"
  by (simp add: Properties_example spec_conforming_def spec_missing_kernel_only)

subsection \<open>A failed property that is present and one that is absent\<close>

lemma spec_fails_delete:
  assumes "k \<in> set spec_required" and "map_of bag k = Some v" and "\<not> spec_satisfies k v"
  shows "spec_fails (AList.delete k bag) k' = spec_fails bag k'"
proof (cases "k' = k")
  case True
  with assms show ?thesis
    by (simp add: spec_fails_def delete_conv')
next
  case False
  then show ?thesis
    by (simp add: spec_fails_def)
qed

lemma invalid_properties_delete:
  assumes it: "iteration_of sch schemav2"
    and "k \<in> set spec_required" and "map_of bag k = Some v" and "\<not> spec_satisfies k v"
  shows "invalid_properties sch (schema_properties sch) (AList.delete k bag) =
         invalid_properties sch (schema_properties sch) bag"
proof -
  have "fails sch (AList.delete k bag) k' ps = fails sch bag k' ps"
    if "(k', ps) \<in> set (schema_properties sch)" for k' ps
    using fails_v2 [OF it that] spec_fails_delete [OF assms(2-4)] by simp
  then have "filter (\<lambda>(k', ps). fails sch (AList.delete k bag) k' ps) (schema_properties sch) =
             filter (\<lambda>(k', ps). fails sch bag k' ps) (schema_properties sch)"
    by (intro filter_cong) auto
  then show ?thesis
    by (simp add: invalid_properties_filter)
qed

lemma header_Properties: "header (img\<lparr>Properties := bag\<rparr>) = header img"
  by (simp add: header_def)

lemma process_delete_failed:
  assumes it: "iteration_of sch schemav2"
    and r: "k \<in> set spec_required"
    and p: "map_of (Properties img) k = Some v"
    and n: "\<not> spec_satisfies k v"
  shows "process (img\<lparr>Properties := AList.delete k (Properties img)\<rparr>) sch = process img sch"
proof -
  have rec: "k \<in> set spec_recognized"
    using r spec_required_recognized by blast
  from rec p n have "k \<in> set (spec_invalid (Properties img))"
    by (auto simp: spec_invalid_member)
  then have a: "\<not> spec_conforming (Properties img)"
    by (rule not_conforming_if_invalid)
  have "k \<in> set (spec_missing (AList.delete k (Properties img)))"
    using r by (simp add: spec_missing_def delete_conv')
  then have "spec_missing (AList.delete k (Properties img)) \<noteq> []"
    by auto
  then have "\<not> spec_conforming (AList.delete k (Properties img))"
    by (rule not_conforming_if_missing)
  then have b: "\<not> spec_conforming (Properties (img\<lparr>Properties := AList.delete k (Properties img)\<rparr>))"
    by simp
  show ?thesis
    unfolding process_v2_invalid [OF it a] process_v2_invalid [OF it b]
    by (simp add: header_Properties invalid_properties_delete [OF it r p n])
qed

lemma empty_not_satisfying:
  "map_of spec_enumerations k = Some allowed \<Longrightarrow> \<not> spec_satisfies k (JString [])"
  using enumerated_nonempty_strings [of k allowed] by (simp add: satisfies_enum)

lemma invalid_properties_empty_virtualization:
  "invalid_properties schemav2 (schema_properties schemav2) bag_empty_virtualization =
     [''unikorn:virtualization'']"
  by (simp add: schemav2_def bag_empty_virtualization_def IsValid_def evaluateType_def
        evaluateEnum_def enum_string_def free_string_def isRequired_def defaultIsSpecified_def)

lemma invalid_properties_missing_virtualization:
  "invalid_properties schemav2 (schema_properties schemav2) bag_missing_virtualization =
     [''unikorn:virtualization'']"
  by (simp add: schemav2_def bag_missing_virtualization_def IsValid_def evaluateType_def
        evaluateEnum_def enum_string_def free_string_def isRequired_def defaultIsSpecified_def)

lemma empty_virtualization_not_conforming:
  "\<not> spec_conforming (Properties (example_image bag_empty_virtualization))"
  using invalid_v2_Nil [OF iteration_refl, of bag_empty_virtualization]
  by (simp add: Properties_example invalid_properties_empty_virtualization)

lemma missing_virtualization_not_conforming:
  "\<not> spec_conforming (Properties (example_image bag_missing_virtualization))"
  using invalid_v2_Nil [OF iteration_refl, of bag_missing_virtualization]
  by (simp add: Properties_example invalid_properties_missing_virtualization)

lemma header_example: "header (example_image bag) = header (example_image bag')"
  by (simp add: header_def example_image_def)

lemma delete_empty_virtualization:
  "AList.delete ''unikorn:virtualization'' bag_empty_virtualization = bag_missing_virtualization"
  by (simp add: bag_empty_virtualization_def bag_missing_virtualization_def AList.delete_eq)

section \<open>The claims\<close>

text \<open>
  Claim C5. The fifth line of every image's report is \<open>sizeGiB:\<close> followed by the size
  in bytes shifted right by 30. Read as a signed 64-bit number, the shifted value is
  the quotient of the size by \<open>2 ^ 30\<close> rounded down: it is the largest \<open>g\<close> with
  \<open>g * 2 ^ 30\<close> at most the size, so it never rounds up. A size of 3221225472 bytes and
  a size of 3400000000 bytes both print 3.
\<close>

theorem sizeGiB_shift:
  "process img schema ! 4 = [Str ''sizeGiB:'', Int64 (signed_drop_bit 30 (SizeBytes img))] \<and>
   sint (signed_drop_bit 30 (SizeBytes img)) = sint (SizeBytes img) div 2 ^ 30 \<and>
   sint (signed_drop_bit 30 (SizeBytes img)) * 2 ^ 30 \<le> sint (SizeBytes img) \<and>
   sint (SizeBytes img) < (sint (signed_drop_bit 30 (SizeBytes img)) + 1) * 2 ^ 30 \<and>
   process (img\<lparr>SizeBytes := 3221225472\<rparr>) schema ! 4 = [Str ''sizeGiB:'', Int64 3] \<and>
   process (img\<lparr>SizeBytes := 3400000000\<rparr>) schema ! 4 = [Str ''sizeGiB:'', Int64 3]"
proof -
  have line: "process i schema ! 4 = [Str ''sizeGiB:'', Int64 (signed_drop_bit 30 (SizeBytes i))]"
    for i
    by (simp add: process_def report_def header_def)
  have d: "sint (signed_drop_bit 30 (SizeBytes img)) = sint (SizeBytes img) div 2 ^ 30"
    by (simp add: sint_signed_drop_bit_eq drop_bit_eq_div)
  define x where "x = sint (SizeBytes img)"
  have e: "x div 2 ^ 30 * 2 ^ 30 + x mod 2 ^ 30 = x"
    by simp
  have m: "0 \<le> x mod 2 ^ 30" "x mod 2 ^ 30 < 2 ^ 30"
    by simp_all
  have lo: "sint (SizeBytes img) div 2 ^ 30 * 2 ^ 30 \<le> sint (SizeBytes img)"
    using e m unfolding x_def by linarith
  have hi: "sint (SizeBytes img) < (sint (SizeBytes img) div 2 ^ 30 + 1) * 2 ^ 30"
    using e m unfolding x_def by (simp add: algebra_simps)
  show ?thesis
    unfolding line d using lo hi by simp
qed

text \<open>
  Claim C10. In the report of a result that is not valid, only the keys \<open>properties\<close> of
  the error map produce detail lines: the loop over the map's keys prints the same as
  the loop over those keys alone. A result with no error under \<open>properties\<close> prints the
  header of the image, the fixed failure header and the line \<open>detail:\<close>, and nothing
  more. An error under \<open>properties\<close> prints the category message, then one line for
  its parameter \<open>property\<close> and one for its parameter \<open>properties\<close>, each when present.
\<close>

theorem detail_only_for_properties:
  "\<not> Valid result \<Longrightarrow>
   report img result =
     header img @ failure_header @
     detail_lines (filter (\<lambda>k. k = ''properties'') (map fst (Errors result))) (Errors result) \<and>
   (''properties'' \<notin> set (map fst (Errors result)) \<longrightarrow>
      report img result = header img @ failure_header) \<and>
   (distinct (map fst (Errors result)) \<longrightarrow>
      (\<forall>e. map_of (Errors result) ''properties'' = Some e \<longrightarrow>
         report img result =
           header img @ failure_header @
           [[Str ''  - message: Object properties failed validation or do not exist'']] @
           (case map_of (Params e) ''property'' of
              Some v \<Rightarrow> [[Str ''    properties:'', Any v]] | None \<Rightarrow> []) @
           (case map_of (Params e) ''properties'' of
              Some v \<Rightarrow> [[Str ''    properties:'', Any v]] | None \<Rightarrow> [])))"
proof (intro conjI impI allI)
  assume inv: "\<not> Valid result"
  show "report img result =
     header img @ failure_header @
     detail_lines (filter (\<lambda>k. k = ''properties'') (map fst (Errors result))) (Errors result)"
    using detail_lines_filter [of "map fst (Errors result)" "Errors result"]
    by (simp add: report_invalid [OF inv])
next
  assume inv: "\<not> Valid result" and "''properties'' \<notin> set (map fst (Errors result))"
  then show "report img result = header img @ failure_header"
    by (simp add: report_invalid detail_lines_none)
next
  fix e
  assume inv: "\<not> Valid result" and d: "distinct (map fst (Errors result))"
    and e: "map_of (Errors result) ''properties'' = Some e"
  from e have "''properties'' \<in> set (map fst (Errors result))"
    by (metis map_of_eq_None_iff option.distinct(1) set_map)
  with d have f: "filter (\<lambda>k. k = ''properties'') (map fst (Errors result)) = [''properties'']"
    by (rule filter_eq_single)
  have "detail_lines (map fst (Errors result)) (Errors result) =
        detail_lines [''properties''] (Errors result)"
    using detail_lines_filter [of "map fst (Errors result)" "Errors result"] f by simp
  then show "report img result =
           header img @ failure_header @
           [[Str ''  - message: Object properties failed validation or do not exist'']] @
           (case map_of (Params e) ''property'' of
              Some v \<Rightarrow> [[Str ''    properties:'', Any v]] | None \<Rightarrow> []) @
           (case map_of (Params e) ''properties'' of
              Some v \<Rightarrow> [[Str ''    properties:'', Any v]] | None \<Rightarrow> [])"
    by (simp only: report_invalid [OF inv] detail_lines_single e option.case
          params_lines_both append_Cons append_Nil)
qed

theorem detail_only_for_properties_witness:
  "report (example_image bag_kernel_only)
     \<lparr>Valid = False, Errors = [(''required'', required_error)]\<rparr> =
     header (example_image bag_kernel_only) @ failure_header \<and>
   report (example_image bag_kernel_only)
     \<lparr>Valid = False, Errors = [(''required'', required_error), (''properties'', properties_error)]\<rparr> =
     header (example_image bag_kernel_only) @ failure_header @
     [[Str ''  - message: Object properties failed validation or do not exist''],
      [Str ''    properties:'', Any (JString ''a, b'')]]"
  using
    detail_only_for_properties
      [of "\<lparr>Valid = False, Errors = [(''required'', required_error)]\<rparr>"
          "example_image bag_kernel_only"]
    detail_only_for_properties
      [of "\<lparr>Valid = False,
             Errors = [(''required'', required_error), (''properties'', properties_error)]\<rparr>"
          "example_image bag_kernel_only"]
  by (simp add: properties_error_def)

text \<open>
  Claim C3. A bag in which an enumerated key carries a value outside the key's closed
  enumeration is not valid, whatever the other keys hold and in whatever order the
  validator walks the schema. The bag of five valid required keys with the kernel
  changed to \<open>windows\<close> is such a bag.
\<close>

theorem enumeration_enforced:
  assumes "iteration_of sch schemav2"
    and "map_of spec_enumerations k = Some allowed"
    and "map_of bag k = Some v"
    and "v \<notin> JString ` set allowed"
  shows "\<not> Valid (Validate sch bag)"
proof -
  from assms(2,4) have "\<not> spec_satisfies k v"
    by (auto simp: satisfies_enum)
  with assms(2,3) have "k \<in> set (spec_invalid bag)"
    by (auto simp: spec_invalid_member enumerated_recognized)
  then show ?thesis
    by (simp add: Valid_v2 [OF assms(1)] not_conforming_if_invalid)
qed

theorem enumeration_enforced_witness:
  "map_of spec_enumerations ''unikorn:os:kernel'' = Some [''linux''] \<and>
   map_of bag_windows ''unikorn:os:kernel'' = Some (JString ''windows'') \<and>
   spec_missing bag_windows = [] \<and>
   spec_invalid bag_windows = [''unikorn:os:kernel''] \<and>
   \<not> Valid (Validate schemav2 bag_windows)"
proof -
  have m: "spec_missing bag_windows = []"
    by (simp add: spec_missing_def spec_required_def bag_windows_def)
  have i: "spec_invalid bag_windows = [''unikorn:os:kernel'']"
    by (simp add: spec_invalid_def spec_recognized_def bag_windows_def spec_satisfies_def
          spec_enumerations_def)
  have e: "map_of spec_enumerations ''unikorn:os:kernel'' = Some [''linux'']"
    by (simp add: spec_enumerations_def)
  have b: "map_of bag_windows ''unikorn:os:kernel'' = Some (JString ''windows'')"
    by (simp add: bag_windows_def)
  have n: "JString ''windows'' \<notin> JString ` set [''linux'']"
    by simp
  from enumeration_enforced [OF iteration_refl e b n] e b m i show ?thesis
    by simp
qed

text \<open>
  Claim C8. A key outside the thirteen recognized keys is never flagged. Adding such a
  key with any value to a bag leaves the whole result of validation unchanged, for every
  order in which the validator walks the schema: a conforming bag stays conforming,
  the key appears neither among the failed properties nor among the missing ones, and
  the report of the image is the same.
\<close>

theorem unrecognized_key_ignored:
  assumes "iteration_of sch schemav2" and "k \<notin> set spec_recognized"
  shows "Validate sch ((k, v) # bag) = Validate sch bag \<and>
         (Valid (Validate sch bag) \<longrightarrow> Valid (Validate sch ((k, v) # bag))) \<and>
         k \<notin> set (invalid_properties sch (schema_properties sch) ((k, v) # bag)) \<and>
         k \<notin> set (missingProps (schema_required sch) ((k, v) # bag)) \<and>
         process (img\<lparr>Properties := (k, v) # bag\<rparr>) sch =
         process (img\<lparr>Properties := bag\<rparr>) sch"
proof -
  have keys: "set (map fst (schema_properties sch)) \<union> set (schema_required sch)
              \<subseteq> set spec_recognized"
    using iteration_keys(1) [OF assms(1)] assms(1) spec_required_recognized
    by (simp add: iteration_of_def schemav2_required)
  have V: "Validate sch ((k, v) # bag) = Validate sch bag"
  proof (rule Validate_cong)
    fix k'
    assume "k' \<in> set (map fst (schema_properties sch)) \<union> set (schema_required sch)"
    with keys assms(2) have "k' \<noteq> k" by auto
    then show "map_of ((k, v) # bag) k' = map_of bag k'" by simp
  qed
  have i: "k \<notin> set (invalid_properties sch (schema_properties sch) ((k, v) # bag))"
    using assms(2) by (simp add: invalid_v2_set [OF assms(1)])
  have m: "k \<notin> set (missingProps (schema_required sch) ((k, v) # bag))"
    by (simp add: missingProps_filter)
  have p: "process (img\<lparr>Properties := (k, v) # bag\<rparr>) sch =
           process (img\<lparr>Properties := bag\<rparr>) sch"
    by (simp add: process_def report_def V header_def
          conforming_lines_unrecognized [OF assms(2)])
  from V i m p show ?thesis by simp
qed

theorem unrecognized_key_ignored_witness:
  "''unikorn:os:arch'' \<notin> set spec_recognized \<and>
   Valid (Validate schemav2 bag_minimal) \<and>
   Valid (Validate schemav2 ((''unikorn:os:arch'', JString ''x86_64'') # bag_minimal))"
proof -
  have u: "''unikorn:os:arch'' \<notin> set spec_recognized"
    by (simp add: spec_recognized_def)
  have c: "spec_conforming bag_minimal"
    by (simp add: spec_conforming_def spec_missing_def spec_invalid_def spec_required_def
          spec_recognized_def bag_minimal_def spec_satisfies_def spec_enumerations_def)
  then have "Valid (Validate schemav2 bag_minimal)"
    by (simp add: Valid_v2 [OF iteration_refl])
  with unrecognized_key_ignored
    [OF iteration_refl u, of "JString ''x86_64''" bag_minimal "example_image bag_minimal"] u
  show ?thesis by simp
qed

text \<open>
  Claim C2. Take a bag in which every required key is present and every recognized key
  that is present holds a value that satisfies its constraint. Then, for every order in
  which the validator walks the schema, the result is valid and the report is the
  header of the image followed by sixteen lines: the group \<open>os:\<close> with its six members,
  \<open>package:\<close> with two, \<open>gpu:\<close> with three, then \<open>virtualization:\<close> and \<open>digest:\<close>. Every
  member is printed, with the value the bag holds for its key, unchanged; a key the
  bag does not hold is printed as nil, and no key the bag holds is printed as nil.
\<close>

theorem conforming_view:
  assumes "iteration_of sch schemav2"
    and "\<forall>k\<in>set spec_required. map_of (Properties img) k \<noteq> None"
    and "\<forall>k\<in>set spec_recognized. \<forall>v. map_of (Properties img) k = Some v \<longrightarrow> spec_satisfies k v"
  shows "Valid (Validate sch (Properties img)) \<and>
     process img sch =
       header img @
       [[Str ''os:''],
        [Str ''  kernel:'', Any (index (Properties img) ''unikorn:os:kernel'')],
        [Str ''  family:'', Any (index (Properties img) ''unikorn:os:family'')],
        [Str ''  distro:'', Any (index (Properties img) ''unikorn:os:distro'')],
        [Str ''  variant:'', Any (index (Properties img) ''unikorn:os:variant'')],
        [Str ''  codename:'', Any (index (Properties img) ''unikorn:os:codename'')],
        [Str ''  version:'', Any (index (Properties img) ''unikorn:os:version'')],
        [Str ''package:''],
        [Str ''  kubernetes:'', Any (index (Properties img) ''unikorn:package:kubernetes'')],
        [Str ''  slurmd:'', Any (index (Properties img) ''unikorn:package:slurmd'')],
        [Str ''gpu:''],
        [Str ''  vendor:'', Any (index (Properties img) ''unikorn:gpu_vendor'')],
        [Str ''  models:'', Any (index (Properties img) ''unikorn:gpu_models'')],
        [Str ''  driver:'', Any (index (Properties img) ''unikorn:gpu_driver'')],
        [Str ''virtualization:'', Any (index (Properties img) ''unikorn:virtualization'')],
        [Str ''digest:'', Any (index (Properties img) ''unikorn:digest'')]] \<and>
     (\<forall>k\<in>set spec_recognized.
        case map_of (Properties img) k of
          Some v \<Rightarrow> index (Properties img) k = v \<and> v \<noteq> JNull
        | None \<Rightarrow> index (Properties img) k = JNull)"
proof -
  from assms(2,3) have c: "spec_conforming (Properties img)"
    by (simp add: spec_conforming_iff)
  have v: "Valid (Validate sch (Properties img))"
    using c by (simp add: Valid_v2 [OF assms(1)])
  have p: "process img sch = header img @ conforming_lines (Properties img)"
    using assms(1) c by (rule process_v2_valid)
  from v p index_conforming [OF c] show ?thesis
    unfolding conforming_lines_explicit by blast
qed

theorem conforming_view_witness:
  "Valid (Validate schemav2 bag_minimal) \<and>
   process (example_image bag_minimal) schemav2 =
     header (example_image bag_minimal) @
     [[Str ''os:''],
      [Str ''  kernel:'', Any (JString ''linux'')],
      [Str ''  family:'', Any (JString ''debian'')],
      [Str ''  distro:'', Any (JString ''ubuntu'')],
      [Str ''  variant:'', Any JNull],
      [Str ''  codename:'', Any JNull],
      [Str ''  version:'', Any (JString ''22.04'')],
      [Str ''package:''],
      [Str ''  kubernetes:'', Any JNull],
      [Str ''  slurmd:'', Any JNull],
      [Str ''gpu:''],
      [Str ''  vendor:'', Any JNull],
      [Str ''  models:'', Any JNull],
      [Str ''  driver:'', Any JNull],
      [Str ''virtualization:'', Any (JString ''any'')],
      [Str ''digest:'', Any JNull]]"
proof -
  have P: "Properties (example_image bag_minimal) = bag_minimal"
    by (simp add: example_image_def)
  have c: "spec_conforming (Properties (example_image bag_minimal))"
    unfolding P by (rule bag_minimal_conforming)
  then have h: "\<forall>k\<in>set spec_required. map_of (Properties (example_image bag_minimal)) k \<noteq> None"
    "\<forall>k\<in>set spec_recognized. \<forall>v.
       map_of (Properties (example_image bag_minimal)) k = Some v \<longrightarrow> spec_satisfies k v"
    by (simp_all add: spec_conforming_iff)
  have i: "index bag_minimal ''unikorn:os:kernel'' = JString ''linux''"
    "index bag_minimal ''unikorn:os:family'' = JString ''debian''"
    "index bag_minimal ''unikorn:os:distro'' = JString ''ubuntu''"
    "index bag_minimal ''unikorn:os:variant'' = JNull"
    "index bag_minimal ''unikorn:os:codename'' = JNull"
    "index bag_minimal ''unikorn:os:version'' = JString ''22.04''"
    "index bag_minimal ''unikorn:package:kubernetes'' = JNull"
    "index bag_minimal ''unikorn:package:slurmd'' = JNull"
    "index bag_minimal ''unikorn:gpu_vendor'' = JNull"
    "index bag_minimal ''unikorn:gpu_models'' = JNull"
    "index bag_minimal ''unikorn:gpu_driver'' = JNull"
    "index bag_minimal ''unikorn:virtualization'' = JString ''any''"
    "index bag_minimal ''unikorn:digest'' = JNull"
    by (simp_all add: index_def bag_minimal_def)
  from conforming_view [OF iteration_refl h] show ?thesis
    unfolding P i by blast
qed

text \<open>
  Claim C1, as stated, fails. The bag that holds only \<open>unikorn:os:kernel = "windows"\<close>
  misses four required keys, and the one defect its report prints lists five keys:
  the four that are missing and \<open>unikorn:os:kernel\<close>, which is present with a value
  outside its enumeration.
\<close>

theorem missing_keys_listing_counterexample:
  "spec_missing bag_windows_only =
     [''unikorn:os:family'', ''unikorn:os:distro'', ''unikorn:os:version'',
      ''unikorn:virtualization''] \<and>
   map_of bag_windows_only ''unikorn:os:kernel'' = Some (JString ''windows'') \<and>
   process (example_image bag_windows_only) schemav2 =
     header (example_image bag_windows_only) @ failure_header @
     [[Str ''  - message: Object properties failed validation or do not exist''],
      [Str ''    properties:'',
       Any (JString (Join (map quoted
         [''unikorn:os:kernel'', ''unikorn:os:family'', ''unikorn:os:distro'',
          ''unikorn:os:version'', ''unikorn:virtualization'']) '', ''))]]"
proof -
  have "\<not> spec_conforming (Properties (example_image bag_windows_only))"
    by (simp add: Properties_example spec_conforming_def spec_missing_windows_only)
  from process_v2_invalid [OF iteration_refl this]
  have p: "process (example_image bag_windows_only) schemav2 =
     header (example_image bag_windows_only) @ failure_header @
     [[Str ''  - message: Object properties failed validation or do not exist''],
      [Str ''    properties:'',
       Any (JString (Join (map quoted
         [''unikorn:os:kernel'', ''unikorn:os:family'', ''unikorn:os:distro'',
          ''unikorn:os:version'', ''unikorn:virtualization'']) '', ''))]]"
    by (simp only: Properties_example invalid_properties_windows_only)
  have k: "map_of bag_windows_only ''unikorn:os:kernel'' = Some (JString ''windows'')"
    by (simp add: bag_windows_only_def)
  from spec_missing_windows_only k p show ?thesis
    by (intro conjI)
qed

text \<open>
  Claim C1, amended. A bag that misses at least one required key is not valid, for every
  order in which the validator walks the schema. Its report is the header of the image,
  the failure header, the category message and one line \<open>properties:\<close>. That line
  lists, each once, the missing required keys together with every recognized key that
  is present with a value violating its constraint, and no other key. When no present
  value violates its constraint the line lists exactly the missing required keys:
  for the bag that holds only \<open>unikorn:os:kernel = "linux"\<close> it lists the four others.
\<close>

theorem missing_keys_listed:
  assumes "iteration_of sch schemav2" and "spec_missing (Properties img) \<noteq> []"
  shows "\<not> Valid (Validate sch (Properties img)) \<and>
     process img sch =
       header img @ failure_header @
       [[Str ''  - message: Object properties failed validation or do not exist''],
        [Str ''    properties:'',
         Any (JString (Join (map quoted
           (invalid_properties sch (schema_properties sch) (Properties img))) '', ''))]] \<and>
     distinct (invalid_properties sch (schema_properties sch) (Properties img)) \<and>
     set (invalid_properties sch (schema_properties sch) (Properties img)) =
       set (spec_missing (Properties img)) \<union> set (spec_invalid (Properties img)) \<and>
     (spec_invalid (Properties img) = [] \<longrightarrow>
        set (invalid_properties sch (schema_properties sch) (Properties img)) =
          set (spec_missing (Properties img)))"
proof -
  from assms(2) have nc: "\<not> spec_conforming (Properties img)"
    by (rule not_conforming_if_missing)
  then have nv: "\<not> Valid (Validate sch (Properties img))"
    by (simp add: Valid_v2 [OF assms(1)])
  note p = process_v2_invalid [OF assms(1) nc]
  note d = invalid_v2_distinct [OF assms(1), of "Properties img"]
  note s = invalid_v2_union [OF assms(1), of "Properties img"]
  from nv p d s show ?thesis by simp
qed

theorem missing_keys_listed_witness:
  "spec_missing (Properties (example_image bag_kernel_only)) =
     [''unikorn:os:family'', ''unikorn:os:distro'', ''unikorn:os:version'',
      ''unikorn:virtualization''] \<and>
   \<not> Valid (Validate schemav2 (Properties (example_image bag_kernel_only))) \<and>
   process (example_image bag_kernel_only) schemav2 =
     header (example_image bag_kernel_only) @ failure_header @
     [[Str ''  - message: Object properties failed validation or do not exist''],
      [Str ''    properties:'',
       Any (JString (Join (map quoted
         [''unikorn:os:family'', ''unikorn:os:distro'', ''unikorn:os:version'',
          ''unikorn:virtualization'']) '', ''))]]"
proof -
  have m: "spec_missing (Properties (example_image bag_kernel_only)) \<noteq> []"
    by (simp add: Properties_example spec_missing_kernel_only)
  from missing_keys_listed [OF iteration_refl m] show ?thesis
    by (simp only: Properties_example spec_missing_kernel_only invalid_properties_kernel_only)
      simp
qed

text \<open>
  Claim C4. The output of the run is the concatenation of the reports of exactly those
  images whose bag holds at least one key that starts with \<open>unikorn:\<close>, in the order of
  the listing. An image with no such key contributes nothing: it is removed before the
  loop and is never validated. Every image with such a key contributes its report,
  which is never empty.
\<close>

theorem eligibility_filter:
  "main_images imgs sch =
     concat (map (\<lambda>i. process i sch)
       (filter (\<lambda>i. \<exists>k\<in>set (map fst (Properties i)). prefix ''unikorn:'' k) imgs)) \<and>
   (\<forall>i\<in>set imgs.
      if \<exists>k\<in>set (map fst (Properties i)). prefix ''unikorn:'' k
      then main_images [i] sch = process i sch \<and> process i sch \<noteq> []
      else main_images [i] sch = [])"
proof -
  have f: "DeleteFunc xs ineligible =
           filter (\<lambda>i. \<exists>k\<in>set (map fst (Properties i)). prefix ''unikorn:'' k) xs" for xs
    unfolding DeleteFunc_filter by (rule filter_cong) (simp_all add: ineligible_iff)
  show ?thesis
    by (simp add: main_images_def f process_all_concat process_nonempty)
qed

theorem eligibility_filter_witness:
  "main_images
     [example_image bag_foreign, example_image bag_kernel_only, example_image bag_minimal]
     schemav2 =
   process (example_image bag_kernel_only) schemav2 @
   process (example_image bag_minimal) schemav2 \<and>
   main_images [example_image bag_foreign] schemav2 = []"
proof -
  have p: "\<not> (\<exists>k\<in>set (map fst (Properties (example_image bag_foreign))). prefix ''unikorn:'' k)"
    "\<exists>k\<in>set (map fst (Properties (example_image bag_kernel_only))). prefix ''unikorn:'' k"
    "\<exists>k\<in>set (map fst (Properties (example_image bag_minimal))). prefix ''unikorn:'' k"
    using ineligible_foreign eligible_kernel_only eligible_minimal
    unfolding ineligible_iff by blast+
  from
    eligibility_filter
      [of "[example_image bag_foreign, example_image bag_kernel_only, example_image bag_minimal]"
          schemav2]
    p
  show ?thesis by simp
qed

text \<open>
  Claim C9. \<open>process\<close> is a total function: for every image it returns the header of the
  image followed by the conforming view when the result is valid, and by the failure
  header and the detail lines otherwise; there is no third outcome and no error. The
  loop leaves no image out: the output for a listing is the output for the images
  before an image, then the report of that image when it is eligible, then the output
  for the images after it, whether or not any of the reports is a failure.
\<close>

theorem loop_continues:
  "main_images (before @ img # after) sch =
     main_images before sch @
     (if ineligible img then [] else process img sch) @
     main_images after sch \<and>
   (if Valid (Validate sch (Properties img))
    then process img sch = header img @ conforming_lines (Properties img)
    else process img sch =
           header img @ failure_header @
           detail_lines (map fst (Errors (Validate sch (Properties img))))
             (Errors (Validate sch (Properties img)))) \<and>
   length (process_all imgs sch) \<ge> 5 * length imgs"
proof -
  have a: "main_images (before @ img # after) sch =
     main_images before sch @
     (if ineligible img then [] else process img sch) @
     main_images after sch"
    by (simp add: main_images_def DeleteFunc_filter process_all_append)
  have b: "if Valid (Validate sch (Properties img))
    then process img sch = header img @ conforming_lines (Properties img)
    else process img sch =
           header img @ failure_header @
           detail_lines (map fst (Errors (Validate sch (Properties img))))
             (Errors (Validate sch (Properties img)))"
    by (simp add: process_def report_def)
  have c: "length (process_all imgs sch) \<ge> 5 * length imgs"
  proof (induction imgs)
    case Nil
    show ?case by simp
  next
    case (Cons i imgs)
    have "length (process i sch) \<ge> 5"
      by (simp add: process_def report_def header_def)
    with Cons show ?case by simp
  qed
  from a b c show ?thesis by blast
qed

theorem loop_continues_witness:
  "\<not> Valid (Validate schemav2 (Properties (example_image bag_kernel_only))) \<and>
   Valid (Validate schemav2 (Properties (example_image bag_minimal))) \<and>
   main_images ([example_image bag_foreign] @ example_image bag_kernel_only #
                [example_image bag_minimal]) schemav2 =
     process (example_image bag_kernel_only) schemav2 @
     process (example_image bag_minimal) schemav2"
proof -
  have n: "\<not> Valid (Validate schemav2 (Properties (example_image bag_kernel_only)))"
    by (simp add: Valid_v2 [OF iteration_refl] Properties_example spec_conforming_def
          spec_missing_kernel_only)
  have v: "Valid (Validate schemav2 (Properties (example_image bag_minimal)))"
    by (simp add: Valid_v2 [OF iteration_refl] Properties_example bag_minimal_conforming)
  have f: "main_images [example_image bag_foreign] schemav2 = []"
    by (simp add: main_images_def ineligible_foreign)
  have m: "main_images [example_image bag_minimal] schemav2 =
           process (example_image bag_minimal) schemav2"
    by (simp add: main_images_def eligible_minimal)
  from
    loop_continues
      [of "[example_image bag_foreign]" "example_image bag_kernel_only"
          "[example_image bag_minimal]" schemav2]
    n v f m eligible_kernel_only
  show ?thesis by simp
qed

text \<open>
  Claim C6, as stated, fails for the emitted output. The validator ranges over the
  schema's property map, a Go map, and lists the failed properties in the order of that
  iteration. For the bag that holds only \<open>unikorn:os:kernel = "linux"\<close>, the declared
  order of the v2 schema and its reverse are two iterations of the same schema, and
  the two reports differ.
\<close>

theorem report_order_counterexample:
  "iteration_of schemav2 schemav2 \<and> iteration_of schemav2_reversed schemav2 \<and>
   process (example_image bag_kernel_only) schemav2 \<noteq>
   process (example_image bag_kernel_only) schemav2_reversed"
proof -
  have "process (example_image bag_kernel_only) schemav2 \<noteq>
        process (example_image bag_kernel_only) schemav2_reversed"
    unfolding process_v2_invalid [OF iteration_refl kernel_only_not_conforming]
      process_v2_invalid [OF iteration_reversed kernel_only_not_conforming]
      Properties_example invalid_properties_kernel_only invalid_properties_reversed_kernel_only
    by (simp add: quoted_def)
  with iteration_refl iteration_reversed show ?thesis by blast
qed

text \<open>
  Claim C6, amended. Take two orders in which the validator may range over the property
  map of the v2 schema. For the same bag both give the same validity, the same error
  keywords, the same error under \<open>required\<close>, and the same failed properties, each once,
  possibly in another order. The two reports agree on every line but the last; they
  are equal when the result is valid, and otherwise their last line is \<open>properties:\<close>
  followed by the failed properties in the order of the iteration. The order in which
  \<open>process\<close> ranges over the error map does not change the report.
\<close>

theorem deterministic_up_to_key_order:
  assumes "iteration_of sch schemav2" and "iteration_of sch' schemav2"
  shows "Valid (Validate sch (Properties img)) = Valid (Validate sch' (Properties img)) \<and>
     map fst (Errors (Validate sch (Properties img))) =
       map fst (Errors (Validate sch' (Properties img))) \<and>
     map_of (Errors (Validate sch (Properties img))) ''required'' =
       map_of (Errors (Validate sch' (Properties img))) ''required'' \<and>
     mset (invalid_properties sch (schema_properties sch) (Properties img)) =
       mset (invalid_properties sch' (schema_properties sch') (Properties img)) \<and>
     butlast (process img sch) = butlast (process img sch') \<and>
     (Valid (Validate sch (Properties img)) \<longrightarrow> process img sch = process img sch') \<and>
     (\<not> Valid (Validate sch (Properties img)) \<longrightarrow>
        last (process img sch) =
          [Str ''    properties:'',
           Any (JString (Join (map quoted
             (invalid_properties sch (schema_properties sch) (Properties img))) '', ''))]) \<and>
     (\<forall>errs. mset errs = mset (Errors (Validate sch (Properties img))) \<longrightarrow>
        report img ((Validate sch (Properties img))\<lparr>Errors := errs\<rparr>) = process img sch)"
proof -
  let ?bag = "Properties img"
  let ?inv = "invalid_properties sch (schema_properties sch) ?bag"
  let ?inv' = "invalid_properties sch' (schema_properties sch') ?bag"
  have v: "Valid (Validate sch ?bag) = Valid (Validate sch' ?bag)"
    by (simp add: Valid_v2 assms)
  have ms: "mset ?inv = mset ?inv'"
    using invalid_v2_distinct [OF assms(1), of ?bag] invalid_v2_distinct [OF assms(2), of ?bag]
      invalid_v2_union [OF assms(1), of ?bag] invalid_v2_union [OF assms(2), of ?bag]
    by (simp add: set_eq_iff_mset_eq_distinct [symmetric])
  have nil: "?inv = [] \<longleftrightarrow> ?inv' = []"
    by (simp add: invalid_v2_Nil assms)
  have ks: "map fst (Errors (Validate sch ?bag)) = map fst (Errors (Validate sch' ?bag))"
    using nil
    by (auto simp: Errors_v2 assms names_error_None split: option.splits)
  have rq: "map_of (Errors (Validate sch ?bag)) ''required'' =
            map_of (Errors (Validate sch' ?bag)) ''required''"
    by (simp add: map_of_Errors_v2(2) assms missing_v2)
  have bl: "butlast (process img sch) = butlast (process img sch')"
  proof (cases "spec_conforming ?bag")
    case True
    then show ?thesis by (simp add: process_v2_valid assms)
  next
    case False
    then show ?thesis by (simp add: process_v2_invalid assms butlast_append)
  qed
  have eq: "Valid (Validate sch ?bag) \<longrightarrow> process img sch = process img sch'"
    by (simp add: Valid_v2 assms process_v2_valid)
  have la: "\<not> Valid (Validate sch ?bag) \<longrightarrow>
        last (process img sch) =
          [Str ''    properties:'', Any (JString (Join (map quoted ?inv) '', ''))]"
    by (simp add: Valid_v2 assms process_v2_invalid)
  have pe: "\<forall>errs. mset errs = mset (Errors (Validate sch ?bag)) \<longrightarrow>
        report img ((Validate sch ?bag)\<lparr>Errors := errs\<rparr>) = process img sch"
    using report_Errors_permuted [OF Errors_v2_distinct [OF assms(1)]]
    by (simp add: process_def)
  from v ks rq ms bl eq la pe show ?thesis by blast
qed

theorem deterministic_up_to_key_order_witness:
  "\<not> Valid (Validate schemav2 (Properties (example_image bag_kernel_only))) \<and>
   \<not> Valid (Validate schemav2_reversed (Properties (example_image bag_kernel_only))) \<and>
   mset (invalid_properties schemav2 (schema_properties schemav2)
          (Properties (example_image bag_kernel_only))) =
   mset (invalid_properties schemav2_reversed (schema_properties schemav2_reversed)
          (Properties (example_image bag_kernel_only))) \<and>
   butlast (process (example_image bag_kernel_only) schemav2) =
   butlast (process (example_image bag_kernel_only) schemav2_reversed) \<and>
   Valid (Validate schemav2 (Properties (example_image bag_minimal))) \<and>
   process (example_image bag_minimal) schemav2 =
   process (example_image bag_minimal) schemav2_reversed"
proof -
  note k = deterministic_up_to_key_order
             [OF iteration_refl iteration_reversed, of "example_image bag_kernel_only"]
  note m = deterministic_up_to_key_order
             [OF iteration_refl iteration_reversed, of "example_image bag_minimal"]
  have n: "\<not> Valid (Validate schemav2 (Properties (example_image bag_kernel_only)))"
    by (simp add: Valid_v2 [OF iteration_refl] kernel_only_not_conforming)
  have v: "Valid (Validate schemav2 (Properties (example_image bag_minimal)))"
    by (simp add: Valid_v2 [OF iteration_refl] Properties_example bag_minimal_conforming)
  from k m n v show ?thesis by blast
qed

text \<open>
  Claim C7, as stated, fails for the defect the program emits. Take the bag of five
  required keys whose \<open>unikorn:virtualization\<close> is the empty string, and the bag of the
  other four keys alone, where \<open>unikorn:virtualization\<close> is absent. Both reports consist
  of the header, the failure header and one defect: the message ``Object properties
  failed validation or do not exist'' with \<open>'unikorn:virtualization'\<close>. The two reports
  are equal, so the defect printed for the empty value is not of a category that sets
  an invalid value apart from a missing required property.
\<close>

theorem empty_value_category_counterexample:
  "map_of bag_empty_virtualization ''unikorn:virtualization'' = Some (JString []) \<and>
   map_of bag_missing_virtualization ''unikorn:virtualization'' = None \<and>
   process (example_image bag_empty_virtualization) schemav2 =
     header (example_image bag_empty_virtualization) @ failure_header @
     [[Str ''  - message: Object properties failed validation or do not exist''],
      [Str ''    properties:'', Any (JString (quoted ''unikorn:virtualization''))]] \<and>
   process (example_image bag_missing_virtualization) schemav2 =
   process (example_image bag_empty_virtualization) schemav2"
proof -
  have e: "map_of bag_empty_virtualization ''unikorn:virtualization'' = Some (JString [])"
    by (simp add: bag_empty_virtualization_def)
  have m: "map_of bag_missing_virtualization ''unikorn:virtualization'' = None"
    by (simp add: bag_missing_virtualization_def)
  have pe: "process (example_image bag_empty_virtualization) schemav2 =
     header (example_image bag_empty_virtualization) @ failure_header @
     [[Str ''  - message: Object properties failed validation or do not exist''],
      [Str ''    properties:'', Any (JString (quoted ''unikorn:virtualization''))]]"
    unfolding process_v2_invalid [OF iteration_refl empty_virtualization_not_conforming]
      Properties_example invalid_properties_empty_virtualization
    by simp
  have pm: "process (example_image bag_missing_virtualization) schemav2 =
     header (example_image bag_empty_virtualization) @ failure_header @
     [[Str ''  - message: Object properties failed validation or do not exist''],
      [Str ''    properties:'', Any (JString (quoted ''unikorn:virtualization''))]]"
    unfolding process_v2_invalid [OF iteration_refl missing_virtualization_not_conforming]
      Properties_example invalid_properties_missing_virtualization
      header_example [of bag_missing_virtualization bag_empty_virtualization]
    by simp
  from e m pe pm show ?thesis by simp
qed

text \<open>
  Claim C7, amended. Let a required key with an enumeration be present with the empty
  string as its value. Then, for every order in which the validator walks the schema:
  the key counts as present, since it is not among the missing properties and the
  error the validator keeps under \<open>required\<close> is made of those alone; the empty string
  is outside the enumeration, so the result is not valid and the key is among the
  failed properties, each listed once. The report that \<open>process\<close> prints is the header,
  the failure header and one defect, the message ``Object properties failed validation
  or do not exist'' with the failed properties, the key among them. That defect does
  not tell an invalid value from a missing one: deleting the key from the bag leaves
  the report unchanged.
\<close>

theorem empty_value_reported_as_failed_property:
  assumes "iteration_of sch schemav2"
    and "k \<in> set spec_required"
    and "map_of spec_enumerations k = Some allowed"
    and "map_of (Properties img) k = Some (JString [])"
  shows "\<not> Valid (Validate sch (Properties img)) \<and>
     k \<notin> set (missingProps (schema_required sch) (Properties img)) \<and>
     map_of (Errors (Validate sch (Properties img))) ''required'' =
       names_error ''required'' (missingProps (schema_required sch) (Properties img)) \<and>
     k \<in> set (invalid_properties sch (schema_properties sch) (Properties img)) \<and>
     distinct (invalid_properties sch (schema_properties sch) (Properties img)) \<and>
     process img sch =
       header img @ failure_header @
       [[Str ''  - message: Object properties failed validation or do not exist''],
        [Str ''    properties:'',
         Any (JString (Join (map quoted
           (invalid_properties sch (schema_properties sch) (Properties img))) '', ''))]] \<and>
     process (img\<lparr>Properties := AList.delete k (Properties img)\<rparr>) sch = process img sch"
proof -
  let ?bag = "Properties img"
  note ns = empty_not_satisfying [OF assms(3)]
  from assms(4) ns have inv: "k \<in> set (spec_invalid ?bag)"
    by (auto simp: spec_invalid_member enumerated_recognized [OF assms(3)])
  then have nc: "\<not> spec_conforming ?bag"
    by (rule not_conforming_if_invalid)
  then have nv: "\<not> Valid (Validate sch ?bag)"
    by (simp add: Valid_v2 [OF assms(1)])
  have m: "k \<notin> set (missingProps (schema_required sch) ?bag)"
    using assms(4) by (simp add: missingProps_filter)
  note rq = map_of_Errors_v2(2) [OF assms(1), of ?bag]
  from inv have l: "k \<in> set (invalid_properties sch (schema_properties sch) ?bag)"
    by (simp add: invalid_v2_union [OF assms(1)])
  note d = invalid_v2_distinct [OF assms(1), of ?bag]
  note p = process_v2_invalid [OF assms(1) nc]
  note del = process_delete_failed [OF assms(1,2,4) ns]
  from nv m rq l d p del show ?thesis by blast
qed

theorem empty_value_reported_as_failed_property_witness:
  "''unikorn:virtualization'' \<in> set spec_required \<and>
   map_of spec_enumerations ''unikorn:virtualization'' = Some [''any'', ''baremetal'', ''virtualized''] \<and>
   map_of (Properties (example_image bag_empty_virtualization)) ''unikorn:virtualization'' =
     Some (JString []) \<and>
   \<not> Valid (Validate schemav2 (Properties (example_image bag_empty_virtualization))) \<and>
   ''unikorn:virtualization'' \<notin>
     set (missingProps (schema_required schemav2)
            (Properties (example_image bag_empty_virtualization))) \<and>
   Errors (Validate schemav2 bag_empty_virtualization) =
     [(''properties'',
       \<lparr>Keyword = ''properties'',
        Params = [(''property'', JString (quoted ''unikorn:virtualization''))]\<rparr>)] \<and>
   process (example_image bag_empty_virtualization) schemav2 =
     header (example_image bag_empty_virtualization) @ failure_header @
     [[Str ''  - message: Object properties failed validation or do not exist''],
      [Str ''    properties:'', Any (JString (quoted ''unikorn:virtualization''))]] \<and>
   process ((example_image bag_empty_virtualization)\<lparr>Properties := bag_missing_virtualization\<rparr>)
     schemav2 =
   process (example_image bag_empty_virtualization) schemav2"
proof -
  have r: "''unikorn:virtualization'' \<in> set spec_required"
    by (simp add: spec_required_def)
  have e: "map_of spec_enumerations ''unikorn:virtualization'' =
           Some [''any'', ''baremetal'', ''virtualized'']"
    by (simp add: spec_enumerations_def)
  have b: "map_of (Properties (example_image bag_empty_virtualization))
             ''unikorn:virtualization'' = Some (JString [])"
    by (simp add: Properties_example bag_empty_virtualization_def)
  note t = empty_value_reported_as_failed_property [OF iteration_refl r e b]
  have j: "Join (map quoted [''unikorn:virtualization'']) '', '' = quoted ''unikorn:virtualization''"
    by simp
  from t r e b show ?thesis
    unfolding Properties_example invalid_properties_empty_virtualization j
      delete_empty_virtualization
    by (simp add: Validate_empty_virtualization)
qed

end
